theory Spec2Isabelle
  imports Main "HOL-Library.Word"
begin

unbundle bit_operations_syntax

section \<open>JavaScript data\<close>

text \<open>
  A \<^verbatim>\<open>Uint8Array\<close> is a list of bytes. A JavaScript string is a sequence of 16-bit code
  units; \<open>str\<close> turns an ASCII literal of the source into one. A thrown value is a
  \<open>js_error\<close>: an \<^verbatim>\<open>Error\<close> made by the code, or one of the exceptions the browser raises,
  each with its message (a \<^verbatim>\<open>DOMException\<close> also has a name). A function that can throw
  (or an \<^verbatim>\<open>async\<close> function that can reject) returns \<open>js_error + 'a\<close>.
\<close>

type_synonym byte = "8 word"
type_synonym bytes = "byte list"
type_synonym code_unit = "16 word"
type_synonym js_string = "code_unit list"

definition str :: "string \<Rightarrow> js_string" where
  "str s = map of_char s"

datatype js_error =
    Error js_string
  | TypeError js_string
  | SyntaxError js_string
  | DOMException js_string js_string

fun message :: "js_error \<Rightarrow> js_string" where
  "message (Error m) = m"
| "message (TypeError m) = m"
| "message (SyntaxError m) = m"
| "message (DOMException n m) = m"

text \<open>
  The values \<^verbatim>\<open>JSON.parse\<close> can return and \<^verbatim>\<open>JSON.stringify\<close> can take. Numbers are kept
  to the integers; an object lists each of its keys once.
\<close>

datatype js_value =
    JUndefined
  | JNull
  | JBool bool
  | JNumber int
  | JString js_string
  | JArray "js_value list"
  | JObject "(js_string \<times> js_value) list"

text \<open>Sequencing of calls that can throw: the first error ends the block.\<close>

definition and_then :: "js_error + 'a \<Rightarrow> ('a \<Rightarrow> js_error + 'b) \<Rightarrow> js_error + 'b" where
  "and_then r f = (case r of Inl e \<Rightarrow> Inl e | Inr v \<Rightarrow> f v)"

text \<open>
  Property access \<^verbatim>\<open>v.name\<close>: a \<^verbatim>\<open>TypeError\<close> on \<^verbatim>\<open>null\<close> and \<^verbatim>\<open>undefined\<close>, the
  property's value on an object that has it, \<^verbatim>\<open>undefined\<close> otherwise.
\<close>

definition get_prop :: "js_value \<Rightarrow> js_string \<Rightarrow> js_error + js_value" where
  "get_prop v name =
     (case v of
        JUndefined \<Rightarrow> Inl (TypeError (str ''Cannot read properties of undefined''))
      | JNull \<Rightarrow> Inl (TypeError (str ''Cannot read properties of null''))
      | JObject kvs \<Rightarrow> Inr (case map_of kvs name of Some x \<Rightarrow> x | None \<Rightarrow> JUndefined)
      | _ \<Rightarrow> Inr JUndefined)"

section \<open>The browser built-ins \<^verbatim>\<open>btoa\<close> and \<^verbatim>\<open>atob\<close>\<close>

text \<open>
  \<^verbatim>\<open>btoa\<close> throws on a code unit above 255 and otherwise encodes the string's bytes in
  base64: each group of three bytes becomes four characters of the alphabet, and a last
  group of one or two bytes is filled with zero bits and padded with \<^verbatim>\<open>=\<close> (code unit
  61). \<^verbatim>\<open>atob\<close> is the forgiving decoder: it drops ASCII whitespace, removes one or two
  trailing \<^verbatim>\<open>=\<close> when the length is a multiple of four, fails when the remaining length
  is 1 modulo 4 or a character is outside the alphabet, and turns each group of four
  characters back into three bytes (a last group of three or two characters into two
  bytes or one, the spare bits dropped).
\<close>

definition b64_alphabet :: js_string where
  "b64_alphabet = str ''ABCDEFGHIJKLMNOPQRSTUVWXYZabcdefghijklmnopqrstuvwxyz0123456789+/''"

definition b64_char :: "nat \<Rightarrow> code_unit" where
  "b64_char n = b64_alphabet ! n"

definition b64_index :: "code_unit \<Rightarrow> nat option" where
  "b64_index u = map_of (zip b64_alphabet [0..<64]) u"

definition group24 :: "nat \<Rightarrow> nat list" where
  "group24 n = [n div 262144, n div 4096 mod 64, n div 64 mod 64, n mod 64]"

fun sextets :: "bytes \<Rightarrow> nat list" where
  "sextets (a # b # c # r) = group24 (unat a * 65536 + unat b * 256 + unat c) @ sextets r"
| "sextets [a, b] = take 3 (group24 (unat a * 65536 + unat b * 256))"
| "sextets [a] = take 2 (group24 (unat a * 65536))"
| "sextets [] = []"

definition invalid_character :: js_error where
  "invalid_character =
     DOMException (str ''InvalidCharacterError'') (str ''The string contains invalid characters.'')"

definition base64_encode :: "bytes \<Rightarrow> js_string" where
  "base64_encode bs = map b64_char (sextets bs) @ replicate ((3 - length bs mod 3) mod 3) 61"

definition btoa :: "js_string \<Rightarrow> js_error + js_string" where
  "btoa s =
     (if list_ex (\<lambda>u. 255 < u) s then Inl invalid_character
      else Inr (base64_encode (map ucast s)))"

definition ascii_whitespace :: "code_unit \<Rightarrow> bool" where
  "ascii_whitespace u \<longleftrightarrow> u = 9 \<or> u = 10 \<or> u = 12 \<or> u = 13 \<or> u = 32"

definition strip_padding :: "js_string \<Rightarrow> js_string" where
  "strip_padding d =
     (if length d mod 4 = 0 then
        (case rev d of
           u # v # r \<Rightarrow>
             if u = 61 \<and> v = 61 then rev r else if u = 61 then rev (v # r) else d
         | _ \<Rightarrow> d)
      else d)"

definition bytes24 :: "nat \<Rightarrow> bytes" where
  "bytes24 n = [of_nat (n div 65536), of_nat (n div 256), of_nat n]"

fun unsextets :: "nat list \<Rightarrow> bytes" where
  "unsextets (p # q # r # s # rest) =
     bytes24 (p * 262144 + q * 4096 + r * 64 + s) @ unsextets rest"
| "unsextets [p, q, r] = take 2 (bytes24 (p * 262144 + q * 4096 + r * 64))"
| "unsextets [p, q] = take 1 (bytes24 (p * 262144 + q * 4096))"
| "unsextets [p] = []"
| "unsextets [] = []"

definition atob :: "js_string \<Rightarrow> js_error + js_string" where
  "atob s =
     (let d = strip_padding (filter (\<lambda>u. \<not> ascii_whitespace u) s)
      in if length d mod 4 = 1 then Inl invalid_character
         else (case those (map b64_index d) of
                 None \<Rightarrow> Inl invalid_character
               | Some ix \<Rightarrow> Inr (map ucast (unsextets ix))))"

section \<open>The platform: text encoding, JSON, Web Crypto and the random source\<close>

text \<open>
  The functions of the browser that the encryption utilities call are parameters of the
  model. \<open>PBKDF2_SHA256 password salt iterations length\<close> is the key derivation (the
  length in bits); it accepts every password and every salt. \<open>AES_GCM_encrypt key iv
  tagLength data\<close> returns the ciphertext followed by the tag, and \<open>AES_GCM_decrypt\<close>
  fails when the tag does not verify. \<^verbatim>\<open>JSON.stringify\<close> returns \<^verbatim>\<open>undefined\<close> (\<open>None\<close>) for
  a value that has no JSON text.
\<close>

record platform =
  TextEncoder_encode :: "js_string \<Rightarrow> bytes"
  TextDecoder_decode :: "bytes \<Rightarrow> js_string"
  JSON_stringify :: "js_value \<Rightarrow> js_string option"
  JSON_parse :: "js_string \<Rightarrow> js_error + js_value"
  PBKDF2_SHA256 :: "bytes \<Rightarrow> bytes \<Rightarrow> nat \<Rightarrow> nat \<Rightarrow> bytes"
  AES_GCM_encrypt :: "bytes \<Rightarrow> bytes \<Rightarrow> nat \<Rightarrow> bytes \<Rightarrow> js_error + bytes"
  AES_GCM_decrypt :: "bytes \<Rightarrow> bytes \<Rightarrow> nat \<Rightarrow> bytes \<Rightarrow> js_error + bytes"

text \<open>
  A \<^verbatim>\<open>CryptoKey\<close> is represented by its key bits. \<^verbatim>\<open>crypto.subtle.deriveKey\<close> for an
  AES-GCM key of 256 bits derives 256 bits and imports them as the key;
  \<^verbatim>\<open>crypto.subtle.deriveBits\<close> returns the derived bits themselves.
\<close>

type_synonym crypto_key = bytes

record Pbkdf2Params =
  kdf_salt :: bytes
  kdf_iterations :: nat

record AesGcmParams =
  gcm_iv :: "bytes option"
  gcm_tagLength :: nat

definition subtle_importKey :: "bytes \<Rightarrow> bytes" where
  "subtle_importKey keyData = keyData"

definition subtle_deriveBits :: "platform \<Rightarrow> Pbkdf2Params \<Rightarrow> bytes \<Rightarrow> nat \<Rightarrow> bytes" where
  "subtle_deriveBits W params keyMaterial len =
     PBKDF2_SHA256 W keyMaterial (kdf_salt params) (kdf_iterations params) len"

definition subtle_deriveKey :: "platform \<Rightarrow> Pbkdf2Params \<Rightarrow> bytes \<Rightarrow> nat \<Rightarrow> crypto_key" where
  "subtle_deriveKey W params keyMaterial len =
     subtle_importKey (subtle_deriveBits W params keyMaterial len)"

text \<open>
  The member \<^verbatim>\<open>iv\<close> of the AES-GCM parameters is required: \<^verbatim>\<open>crypto.subtle.encrypt\<close> and
  \<^verbatim>\<open>crypto.subtle.decrypt\<close> reject with a \<^verbatim>\<open>TypeError\<close> when it is \<^verbatim>\<open>undefined\<close> (\<open>None\<close>).
\<close>

definition missing_iv :: js_error where
  "missing_iv = TypeError (str ''Failed to read the iv property from AesGcmParams: Required member is undefined.'')"

definition subtle_encrypt :: "platform \<Rightarrow> AesGcmParams \<Rightarrow> crypto_key \<Rightarrow> bytes \<Rightarrow> js_error + bytes" where
  "subtle_encrypt W params key data =
     (case gcm_iv params of
        None \<Rightarrow> Inl missing_iv
      | Some v \<Rightarrow> AES_GCM_encrypt W key v (gcm_tagLength params) data)"

definition subtle_decrypt :: "platform \<Rightarrow> AesGcmParams \<Rightarrow> crypto_key \<Rightarrow> bytes \<Rightarrow> js_error + bytes" where
  "subtle_decrypt W params key data =
     (case gcm_iv params of
        None \<Rightarrow> Inl missing_iv
      | Some v \<Rightarrow> AES_GCM_decrypt W key v (gcm_tagLength params) data)"

text \<open>
  The random source is the stream of bytes it will deliver: \<^verbatim>\<open>crypto.getRandomValues\<close>
  on an array of \<open>n\<close> bytes takes the next \<open>n\<close> and leaves the rest.
\<close>

type_synonym entropy = "nat \<Rightarrow> byte"

definition getRandomValues :: "nat \<Rightarrow> entropy \<Rightarrow> bytes \<times> entropy" where
  "getRandomValues n g = (map g [0..<n], \<lambda>i. g (i + n))"

section \<open>The encryption utilities\<close>

definition PBKDF2_ITERATIONS :: nat where
  "PBKDF2_ITERATIONS = 100000"

definition SALT_LENGTH :: nat where
  "SALT_LENGTH = 16"

definition IV_LENGTH :: nat where
  "IV_LENGTH = 12"

definition TAG_LENGTH :: nat where
  "TAG_LENGTH = 16"

definition generateSalt :: "entropy \<Rightarrow> bytes \<times> entropy" where
  "generateSalt g = getRandomValues SALT_LENGTH g"

definition generateIV :: "entropy \<Rightarrow> bytes \<times> entropy" where
  "generateIV g = getRandomValues IV_LENGTH g"

definition deriveKey :: "platform \<Rightarrow> js_string \<Rightarrow> bytes \<Rightarrow> js_error + crypto_key" where
  "deriveKey W password salt =
     (let passwordBuffer = TextEncoder_encode W password;
          keyMaterial = subtle_importKey passwordBuffer
      in Inr (subtle_deriveKey W
                \<lparr>kdf_salt = salt, kdf_iterations = PBKDF2_ITERATIONS\<rparr> keyMaterial 256))"

text \<open>\<^verbatim>\<open>encoder.encode(undefined)\<close> encodes the empty string.\<close>

definition encryptData :: "platform \<Rightarrow> js_value \<Rightarrow> crypto_key \<Rightarrow> bytes option \<Rightarrow> js_error + bytes" where
  "encryptData W data key iv =
     (let dataBuffer =
            TextEncoder_encode W (case JSON_stringify W data of None \<Rightarrow> [] | Some s \<Rightarrow> s)
      in subtle_encrypt W \<lparr>gcm_iv = iv, gcm_tagLength = TAG_LENGTH * 8\<rparr> key dataBuffer)"

definition decryption_failed :: js_error where
  "decryption_failed = Error (str ''Decryption failed: Invalid key or corrupted data'')"

definition decryptData :: "platform \<Rightarrow> bytes \<Rightarrow> crypto_key \<Rightarrow> bytes option \<Rightarrow> js_error + js_value" where
  "decryptData W encryptedData key iv =
     (case subtle_decrypt W \<lparr>gcm_iv = iv, gcm_tagLength = TAG_LENGTH * 8\<rparr> key encryptedData of
        Inl error \<Rightarrow> Inl decryption_failed
      | Inr decryptedBuffer \<Rightarrow>
          (let decryptedString = TextDecoder_decode W decryptedBuffer
           in case JSON_parse W decryptedString of
                Inl error \<Rightarrow> Inl decryption_failed
              | Inr v \<Rightarrow> Inr v))"

definition arrayBufferToBase64 :: "bytes \<Rightarrow> js_error + js_string" where
  "arrayBufferToBase64 buffer =
     (let binary = foldl (\<lambda>acc byte. acc @ [ucast byte]) [] buffer
      in btoa binary)"

text \<open>
  The loop stores each character code into a fresh \<^verbatim>\<open>Uint8Array\<close>, which keeps its low
  eight bits.
\<close>

definition base64ToArrayBuffer :: "js_string \<Rightarrow> js_error + bytes" where
  "base64ToArrayBuffer base64 =
     (case atob base64 of
        Inl e \<Rightarrow> Inl e
      | Inr binary \<Rightarrow>
          Inr (foldl (\<lambda>bs i. bs[i := ucast (binary ! i)])
                 (replicate (length binary) 0) [0..<length binary]))"

record envelope =
  env_data :: js_string
  env_iv :: js_string
  env_salt :: js_string

text \<open>\<^verbatim>\<open>catch (error) { throw new Error(prefix + error.message) }\<close>\<close>

definition rethrow :: "string \<Rightarrow> js_error + 'a \<Rightarrow> js_error + 'a" where
  "rethrow prefix r =
     (case r of Inl error \<Rightarrow> Inl (Error (str prefix @ message error)) | Inr v \<Rightarrow> Inr v)"

definition encryptNote ::
  "platform \<Rightarrow> entropy \<Rightarrow> js_value \<Rightarrow> js_string \<Rightarrow> bytes \<Rightarrow> (js_error + envelope) \<times> entropy" where
  "encryptNote W g noteContent userPassword userSalt =
     (case deriveKey W userPassword userSalt of
        Inl error \<Rightarrow> (rethrow ''Encryption failed: '' (Inl error), g)
      | Inr key \<Rightarrow>
          (let (iv, g') = generateIV g
           in (rethrow ''Encryption failed: ''
                 (and_then (encryptData W noteContent key (Some iv)) (\<lambda>encryptedData.
                  and_then (arrayBufferToBase64 encryptedData) (\<lambda>d.
                  and_then (arrayBufferToBase64 iv) (\<lambda>i.
                  and_then (arrayBufferToBase64 userSalt) (\<lambda>s.
                    Inr \<lparr>env_data = d, env_iv = i, env_salt = s\<rparr>))))), g')))"

definition decryptNote :: "platform \<Rightarrow> envelope \<Rightarrow> js_string \<Rightarrow> js_error + js_value" where
  "decryptNote W encryptedPackage userPassword =
     rethrow ''Decryption failed: ''
       (and_then (base64ToArrayBuffer (env_data encryptedPackage)) (\<lambda>encryptedData.
        and_then (base64ToArrayBuffer (env_iv encryptedPackage)) (\<lambda>iv.
        and_then (base64ToArrayBuffer (env_salt encryptedPackage)) (\<lambda>salt.
        and_then (deriveKey W userPassword salt) (\<lambda>key.
          decryptData W encryptedData key (Some iv))))))"

definition hashPassword :: "platform \<Rightarrow> js_string \<Rightarrow> bytes \<Rightarrow> js_error + js_string" where
  "hashPassword W password salt =
     (let passwordBuffer = TextEncoder_encode W password;
          keyMaterial = subtle_importKey passwordBuffer;
          hashBuffer = subtle_deriveBits W
                         \<lparr>kdf_salt = salt, kdf_iterations = PBKDF2_ITERATIONS\<rparr> keyMaterial 256
      in arrayBufferToBase64 hashBuffer)"

section \<open>Account creation\<close>

text \<open>
  The part of \<^verbatim>\<open>signUp\<close> that computes the user document written to the \<^verbatim>\<open>users\<close>
  collection: the salt drawn for the new user, in base64, and the password hash computed
  with that salt. Creating the account, updating the profile and sending the verification
  mail are calls to the authentication service and are left out, as are the creation date
  and the display preferences of the document.
\<close>

record user_doc =
  u_email :: js_string
  u_displayName :: js_string
  u_encryptionSalt :: js_string
  u_passwordHash :: js_string
  u_emailVerified :: bool

definition signUp ::
  "platform \<Rightarrow> entropy \<Rightarrow> js_string \<Rightarrow> js_string \<Rightarrow> js_string \<Rightarrow> (js_error + user_doc) \<times> entropy" where
  "signUp W g email password displayName =
     (let (encryptionSalt, g') = generateSalt g
      in (and_then (arrayBufferToBase64 encryptionSalt) (\<lambda>saltBase64.
          and_then (hashPassword W password encryptionSalt) (\<lambda>passwordHash.
            Inr \<lparr>u_email = email, u_displayName = displayName,
                 u_encryptionSalt = saltBase64, u_passwordHash = passwordHash,
                 u_emailVerified = False\<rparr>)), g'))"

section \<open>The note model\<close>

text \<open>
  A document of the \<^verbatim>\<open>notes\<close> collection, and the object the model hands to its caller:
  the document's identifier and fields, with \<^verbatim>\<open>title\<close> and \<^verbatim>\<open>content\<close> when they have been
  set. The document store is a collaborator: its three operations are parameters, over
  any type of store states. \<open>fs_getDoc\<close> returns \<open>None\<close> for a document that does not
  exist; a query is the list of constraints the code has put on it.
\<close>

datatype timestamp = ServerTimestamp | Time nat

record note_doc =
  d_encryptedData :: "bytes option"
  d_userId :: js_string
  d_category :: js_string
  d_tags :: "js_string list option"
  d_createdAt :: timestamp
  d_updatedAt :: timestamp
  d_isDeleted :: bool
  d_isFavorite :: bool

record note_view =
  n_id :: js_string
  n_doc :: note_doc
  n_title :: "js_value option"
  n_content :: "js_value option"

datatype direction = Asc | Desc

datatype constraint =
    Where js_string js_value
  | OrderBy js_string direction
  | Limit nat

type_synonym notes_query = "constraint list"

record 'db firestore =
  fs_addDoc :: "'db \<Rightarrow> note_doc \<Rightarrow> js_error + (js_string \<times> 'db)"
  fs_getDoc :: "'db \<Rightarrow> js_string \<Rightarrow> js_error + note_doc option"
  fs_getDocs :: "'db \<Rightarrow> notes_query \<Rightarrow> js_error + (js_string \<times> note_doc) list"

text \<open>
  The argument of \<^verbatim>\<open>createNote\<close>: \<^verbatim>\<open>category\<close> and \<^verbatim>\<open>tags\<close> may be absent and then take
  their defaults. The call \<^verbatim>\<open>encryptData(dataToEncrypt, this.encryptionKey)\<close> passes no
  third argument, so \<^verbatim>\<open>iv\<close> is \<^verbatim>\<open>undefined\<close>. A write that the store rejects leaves the store
  as it was.
\<close>

record note_input =
  in_title :: js_value
  in_content :: js_value
  in_category :: "js_string option"
  in_tags :: "js_string list option"

definition createNote ::
  "platform \<Rightarrow> 'db firestore \<Rightarrow> 'db \<Rightarrow> js_string \<Rightarrow> crypto_key \<Rightarrow> note_input
     \<Rightarrow> (js_error + note_view) \<times> 'db" where
  "createNote W F db userId encryptionKey noteData =
     (let title = in_title noteData;
          content = in_content noteData;
          category = (case in_category noteData of None \<Rightarrow> str ''default'' | Some c \<Rightarrow> c);
          tags = (case in_tags noteData of None \<Rightarrow> [] | Some ts \<Rightarrow> ts);
          dataToEncrypt = JObject [(str ''title'', title), (str ''content'', content)]
      in case encryptData W dataToEncrypt encryptionKey None of
           Inl error \<Rightarrow> (Inl (Error (str ''Failed to create note'')), db)
         | Inr encryptedData \<Rightarrow>
             (let note = \<lparr>d_encryptedData = Some encryptedData, d_userId = userId,
                          d_category = category, d_tags = Some tags,
                          d_createdAt = ServerTimestamp, d_updatedAt = ServerTimestamp,
                          d_isDeleted = False, d_isFavorite = False\<rparr>
              in case fs_addDoc F db note of
                   Inl error \<Rightarrow> (Inl (Error (str ''Failed to create note'')), db)
                 | Inr (docId, db') \<Rightarrow>
                     (Inr \<lparr>n_id = docId, n_doc = note, n_title = None, n_content = None\<rparr>,
                      db')))"

text \<open>
  Both readers call \<^verbatim>\<open>decryptData(noteData.encryptedData, this.encryptionKey)\<close>, again with
  no \<^verbatim>\<open>iv\<close>, and then read \<^verbatim>\<open>title\<close> and \<^verbatim>\<open>content\<close> of the result.
\<close>

definition read_fields :: "platform \<Rightarrow> crypto_key \<Rightarrow> bytes \<Rightarrow> js_error + (js_value \<times> js_value)" where
  "read_fields W encryptionKey encryptedData =
     and_then (decryptData W encryptedData encryptionKey None) (\<lambda>decryptedData.
     and_then (get_prop decryptedData (str ''title'')) (\<lambda>title.
     and_then (get_prop decryptedData (str ''content'')) (\<lambda>content.
       Inr (title, content))))"

definition getNote ::
  "platform \<Rightarrow> 'db firestore \<Rightarrow> 'db \<Rightarrow> crypto_key \<Rightarrow> js_string \<Rightarrow> js_error + note_view option" where
  "getNote W F db encryptionKey noteId =
     (case fs_getDoc F db noteId of
        Inl error \<Rightarrow> Inl (Error (str ''Failed to get note''))
      | Inr None \<Rightarrow> Inr None
      | Inr (Some d) \<Rightarrow>
          (let noteData = \<lparr>n_id = noteId, n_doc = d, n_title = None, n_content = None\<rparr>
           in case d_encryptedData d of
                None \<Rightarrow> Inr (Some noteData)
              | Some e \<Rightarrow>
                  (case read_fields W encryptionKey e of
                     Inl error \<Rightarrow> Inl (Error (str ''Failed to get note''))
                   | Inr (title, content) \<Rightarrow>
                       Inr (Some (noteData\<lparr>n_title := Some title, n_content := Some content\<rparr>)))))"

record get_options =
  opt_category :: "js_string option"
  opt_tags :: "js_string list"
  opt_limit :: nat
  opt_includeDeleted :: bool
  opt_favoritesOnly :: bool

definition default_options :: get_options where
  "default_options =
     \<lparr>opt_category = None, opt_tags = [], opt_limit = 50,
      opt_includeDeleted = False, opt_favoritesOnly = False\<rparr>"

definition notes_query_of :: "js_string \<Rightarrow> get_options \<Rightarrow> notes_query" where
  "notes_query_of userId options =
     [Where (str ''userId'') (JString userId),
      Where (str ''isDeleted'') (JBool (opt_includeDeleted options)),
      OrderBy (str ''updatedAt'') Desc]
     @ (case opt_category options of
          None \<Rightarrow> []
        | Some c \<Rightarrow> if c \<noteq> [] then [Where (str ''category'') (JString c)] else [])
     @ (if opt_favoritesOnly options then [Where (str ''isFavorite'') (JBool True)] else [])
     @ (if opt_limit options \<noteq> 0 then [Limit (opt_limit options)] else [])"

definition decryption_error :: "note_view \<Rightarrow> note_view" where
  "decryption_error noteData =
     noteData\<lparr>n_title := Some (JString (str ''[Decryption Error]'')),
              n_content := Some (JString (str ''[Unable to decrypt note content]''))\<rparr>"

definition decrypted :: "platform \<Rightarrow> crypto_key \<Rightarrow> js_string \<times> note_doc \<Rightarrow> note_view" where
  "decrypted W encryptionKey doc =
     (let noteData = \<lparr>n_id = fst doc, n_doc = snd doc, n_title = None, n_content = None\<rparr>
      in case d_encryptedData (snd doc) of
           None \<Rightarrow> noteData
         | Some e \<Rightarrow>
             (case read_fields W encryptionKey e of
                Inr (title, content) \<Rightarrow>
                  noteData\<lparr>n_title := Some title, n_content := Some content\<rparr>
              | Inl decryptError \<Rightarrow> decryption_error noteData))"

definition hasTag :: "js_string list \<Rightarrow> note_view \<Rightarrow> bool" where
  "hasTag tags noteData =
     (let noteTags = (case d_tags (n_doc noteData) of None \<Rightarrow> [] | Some ts \<Rightarrow> ts)
      in list_ex (\<lambda>tag. tag \<in> set noteTags) tags)"

fun collect_notes ::
  "platform \<Rightarrow> crypto_key \<Rightarrow> js_string list \<Rightarrow> (js_string \<times> note_doc) list \<Rightarrow> note_view list" where
  "collect_notes W encryptionKey tags [] = []"
| "collect_notes W encryptionKey tags (doc # docs) =
     (let noteData = decrypted W encryptionKey doc
      in if tags \<noteq> [] then
           (if hasTag tags noteData
            then noteData # collect_notes W encryptionKey tags docs
            else collect_notes W encryptionKey tags docs)
         else noteData # collect_notes W encryptionKey tags docs)"

definition getNotes ::
  "platform \<Rightarrow> 'db firestore \<Rightarrow> 'db \<Rightarrow> js_string \<Rightarrow> crypto_key \<Rightarrow> get_options
     \<Rightarrow> js_error + note_view list" where
  "getNotes W F db userId encryptionKey options =
     (case fs_getDocs F db (notes_query_of userId options) of
        Inl error \<Rightarrow> Inl (Error (str ''Failed to get notes''))
      | Inr docs \<Rightarrow> Inr (collect_notes W encryptionKey (opt_tags options) docs))"

section \<open>What the claims assume of the platform\<close>

text \<open>
  The guarantees of AES-GCM and of the JSON and text codecs that the claims rest on, each
  stated as a predicate so that a theorem names the ones it needs. Encryption with an IV
  of \<open>IV_LENGTH\<close> bytes and a tag of \<open>TAG_LENGTH\<close> bytes succeeds (the size limit of
  the plaintext is left out); decryption under the same key and IV returns what was
  encrypted; under a given key, a ciphertext with one bit flipped does not verify (GCM
  detects every single-bit change unless the key's hash subkey is zero); two different
  IVs never give the same ciphertext with tag. A value is JSON-serialisable when its JSON
  text, encoded to bytes and decoded, parses back to it.
\<close>

definition aead_encrypts :: "platform \<Rightarrow> bool" where
  "aead_encrypts W \<longleftrightarrow>
     (\<forall>key iv data. length iv = IV_LENGTH \<longrightarrow>
        (\<exists>c. AES_GCM_encrypt W key iv (TAG_LENGTH * 8) data = Inr c))"

definition aead_correct :: "platform \<Rightarrow> bool" where
  "aead_correct W \<longleftrightarrow>
     (\<forall>key iv data c. AES_GCM_encrypt W key iv (TAG_LENGTH * 8) data = Inr c \<longrightarrow>
        AES_GCM_decrypt W key iv (TAG_LENGTH * 8) c = Inr data)"

definition flip_bit_at :: "nat \<Rightarrow> bytes \<Rightarrow> bytes" where
  "flip_bit_at i bs = bs[i div 8 := (bs ! (i div 8)) XOR push_bit (i mod 8) 1]"

definition aead_authentic :: "platform \<Rightarrow> crypto_key \<Rightarrow> bool" where
  "aead_authentic W key \<longleftrightarrow>
     (\<forall>iv data c i. AES_GCM_encrypt W key iv (TAG_LENGTH * 8) data = Inr c \<longrightarrow>
        i < 8 * length c \<longrightarrow>
        (\<exists>e. AES_GCM_decrypt W key iv (TAG_LENGTH * 8) (flip_bit_at i c) = Inl e))"

definition aead_iv_sensitive :: "platform \<Rightarrow> bool" where
  "aead_iv_sensitive W \<longleftrightarrow>
     (\<forall>key iv iv' data c c'. length iv = IV_LENGTH \<longrightarrow> length iv' = IV_LENGTH \<longrightarrow>
        iv \<noteq> iv' \<longrightarrow>
        AES_GCM_encrypt W key iv (TAG_LENGTH * 8) data = Inr c \<longrightarrow>
        AES_GCM_encrypt W key iv' (TAG_LENGTH * 8) data = Inr c' \<longrightarrow> c \<noteq> c')"

definition json_serialisable :: "platform \<Rightarrow> js_value \<Rightarrow> bool" where
  "json_serialisable W v \<longleftrightarrow>
     (\<exists>s. JSON_stringify W v = Some s \<and>
          JSON_parse W (TextDecoder_decode W (TextEncoder_encode W s)) = Inr v)"

text \<open>
  Flipping bit \<open>i\<close> of the ciphertext held in an envelope's \<^verbatim>\<open>data\<close> field.
\<close>

definition tamper :: "nat \<Rightarrow> envelope \<Rightarrow> js_error + envelope" where
  "tamper i encryptedPackage =
     and_then (base64ToArrayBuffer (env_data encryptedPackage)) (\<lambda>c.
     and_then (arrayBufferToBase64 (flip_bit_at i c)) (\<lambda>d.
       Inr (encryptedPackage\<lparr>env_data := d\<rparr>)))"

section \<open>A small platform to run the model on\<close>

text \<open>
  A platform, a random source and a document store simple enough to evaluate, on which
  the theorems below are run at concrete inputs. The cipher masks each byte with the
  checksum of the key and appends a 16-byte tag made of a checksum and the IV; the JSON
  functions know the one note \<^verbatim>\<open>{"title":"A","content":"B"}\<close>; the store is the list of its
  documents and answers a query with the documents that meet its \<^verbatim>\<open>where\<close> constraints,
  cut at its limit.
\<close>

definition xor_sum :: "bytes \<Rightarrow> byte" where
  "xor_sum bs = foldr (XOR) bs 0"

definition toy_tag :: "bytes \<Rightarrow> bytes \<Rightarrow> bytes \<Rightarrow> bytes" where
  "toy_tag key iv ct = (xor_sum ct XOR xor_sum key) # take 15 (iv @ replicate 15 0)"

definition operation_error :: js_error where
  "operation_error =
     DOMException (str ''OperationError'') (str ''The operation failed for an operation-specific reason'')"

definition toy_encrypt :: "bytes \<Rightarrow> bytes \<Rightarrow> nat \<Rightarrow> bytes \<Rightarrow> js_error + bytes" where
  "toy_encrypt key iv tagLength data =
     (let ct = map (\<lambda>b. b XOR xor_sum key) data in Inr (ct @ toy_tag key iv ct))"

definition toy_decrypt :: "bytes \<Rightarrow> bytes \<Rightarrow> nat \<Rightarrow> bytes \<Rightarrow> js_error + bytes" where
  "toy_decrypt key iv tagLength c =
     (if length c < 16 then Inl operation_error
      else let ct = take (length c - 16) c;
               tg = drop (length c - 16) c
           in if tg = toy_tag key iv ct then Inr (map (\<lambda>b. b XOR xor_sum key) ct)
              else Inl operation_error)"

definition toy_note :: js_value where
  "toy_note = JObject [(str ''title'', JString (str ''A'')), (str ''content'', JString (str ''B''))]"

definition toy_json :: js_string where
  "toy_json = str ''{\"title\":\"A\",\"content\":\"B\"}''"

definition toy_stringify :: "js_value \<Rightarrow> js_string option" where
  "toy_stringify v = (if v = toy_note then Some toy_json else None)"

definition toy_parse :: "js_string \<Rightarrow> js_error + js_value" where
  "toy_parse s =
     (if s = toy_json then Inr toy_note else Inl (SyntaxError (str ''Unexpected token'')))"

definition toy_pbkdf2 :: "bytes \<Rightarrow> bytes \<Rightarrow> nat \<Rightarrow> nat \<Rightarrow> bytes" where
  "toy_pbkdf2 password salt iterations len =
     xor_sum (password @ salt) # replicate (len div 8 - 1) 0"

definition toy_platform :: platform where
  "toy_platform =
     \<lparr>TextEncoder_encode = map ucast, TextDecoder_decode = map ucast,
      JSON_stringify = toy_stringify, JSON_parse = toy_parse,
      PBKDF2_SHA256 = toy_pbkdf2,
      AES_GCM_encrypt = toy_encrypt, AES_GCM_decrypt = toy_decrypt\<rparr>"

definition toy_entropy :: entropy where
  "toy_entropy i = of_nat i"

definition toy_password :: js_string where
  "toy_password = str ''CorrectHorse1!''"

definition toy_salt :: bytes where
  "toy_salt = [1, 2, 3, 4, 5, 6, 7, 8, 9, 10, 11, 12, 13, 14, 15, 16]"

fun meets :: "note_doc \<Rightarrow> constraint \<Rightarrow> bool" where
  "meets d (Where field v) =
     (if field = str ''userId'' then v = JString (d_userId d)
      else if field = str ''isDeleted'' then v = JBool (d_isDeleted d)
      else if field = str ''category'' then v = JString (d_category d)
      else if field = str ''isFavorite'' then v = JBool (d_isFavorite d)
      else False)"
| "meets d (OrderBy field dir) = True"
| "meets d (Limit n) = True"

fun cut :: "notes_query \<Rightarrow> 'a list \<Rightarrow> 'a list" where
  "cut [] docs = docs"
| "cut (Limit n # q) docs = cut q (take n docs)"
| "cut (c # q) docs = cut q docs"

definition toy_firestore :: "(js_string \<times> note_doc) list firestore" where
  "toy_firestore =
     \<lparr>fs_addDoc = (\<lambda>db d. let docId = replicate (Suc (length db)) 110
                          in Inr (docId, db @ [(docId, d)])),
      fs_getDoc = (\<lambda>db docId. Inr (map_of db docId)),
      fs_getDocs = (\<lambda>db q. Inr (cut q (filter (\<lambda>doc. list_all (meets (snd doc)) q) db)))\<rparr>"

definition toy_doc :: note_doc where
  "toy_doc =
     \<lparr>d_encryptedData = Some [1, 2, 3], d_userId = str ''u1'', d_category = str ''default'',
      d_tags = Some [], d_createdAt = Time 1, d_updatedAt = Time 2,
      d_isDeleted = False, d_isFavorite = False\<rparr>"

definition toy_input :: note_input where
  "toy_input =
     \<lparr>in_title = JString (str ''A''), in_content = JString (str ''B''),
      in_category = None, in_tags = None\<rparr>"

section \<open>Base64 decoding inverts base64 encoding\<close>

lemma b64_alphabet_length: "length b64_alphabet = 64"
  by (simp add: b64_alphabet_def str_def)

lemma b64_alphabet_distinct: "distinct b64_alphabet"
  by (simp add: b64_alphabet_def str_def)

lemma b64_index_char: "n < 64 \<Longrightarrow> b64_index (b64_char n) = Some n"
  unfolding b64_index_def b64_char_def
  using map_of_zip_nth [of b64_alphabet "[0..<64]" n]
  by (simp add: b64_alphabet_length b64_alphabet_distinct)

lemma b64_char_in: "n < 64 \<Longrightarrow> b64_char n \<in> set b64_alphabet"
  by (simp add: b64_char_def b64_alphabet_length)

lemma b64_char_not_pad: "n < 64 \<Longrightarrow> b64_char n \<noteq> 61"
proof -
  have "61 \<notin> set b64_alphabet" by (simp add: b64_alphabet_def str_def)
  then show "n < 64 \<Longrightarrow> b64_char n \<noteq> 61" using b64_char_in by metis
qed

lemma b64_char_not_ws: "n < 64 \<Longrightarrow> \<not> ascii_whitespace (b64_char n)"
proof -
  have "\<forall>u \<in> set b64_alphabet. \<not> ascii_whitespace u"
    by (simp add: b64_alphabet_def str_def ascii_whitespace_def)
  then show "n < 64 \<Longrightarrow> \<not> ascii_whitespace (b64_char n)" using b64_char_in by blast
qed

lemma byte_bound: "unat (a :: byte) < 256"
  using unsigned_less [of a, where 'a = nat] by simp

lemma group24_join:
  "n div 262144 * 262144 + n div 4096 mod 64 * 4096 + n div 64 mod 64 * 64 + n mod 64 = (n::nat)"
proof -
  define m1 where "m1 = n div 64"
  define m2 where "m2 = m1 div 64"
  define m3 where "m3 = m2 div 64"
  have e1: "n = m1 * 64 + n mod 64" by (simp add: m1_def)
  have e2: "m1 = m2 * 64 + m1 mod 64" by (simp add: m2_def)
  have e3: "m2 = m3 * 64 + m2 mod 64" by (simp add: m3_def)
  have d2: "n div 4096 = m2" by (simp add: m1_def m2_def div_mult2_eq)
  have d3: "n div 262144 = m3" by (simp add: m1_def m2_def m3_def div_mult2_eq)
  show ?thesis unfolding d2 d3 using e1 e2 e3 by (simp add: m1_def [symmetric])
qed

lemma group24_bound:
  assumes "n < 16777216"
  shows "\<forall>k \<in> set (group24 n). k < 64"
  using assms by (simp add: group24_def)

lemma length_group24: "length (group24 n) = 4"
  by (simp add: group24_def)

lemma bytes24_abc: "bytes24 (unat a * 65536 + unat b * 256 + unat c) = [a, b, c]"
proof -
  let ?n = "unat a * 65536 + unat b * 256 + unat c"
  have h1: "?n div 65536 = unat a"
    using byte_bound [of b] byte_bound [of c] by simp
  have h2: "?n div 256 = unat a * 256 + unat b"
    using byte_bound [of c] by simp
  have k256: "(256 :: byte) = 0" by simp
  have k65536: "(65536 :: byte) = 0" by simp
  have w2: "(of_nat (unat a * 256 + unat b) :: byte) = b" by (simp add: k256)
  have w3: "(of_nat ?n :: byte) = c" by (simp add: k256 k65536)
  show ?thesis unfolding bytes24_def h1 h2 w2 w3 by simp
qed

lemma sextets_bound: "\<forall>n \<in> set (sextets bs). n < 64"
proof (induction bs rule: sextets.induct)
  case (1 a b c r)
  have "unat a * 65536 + unat b * 256 + unat c < 16777216"
    using byte_bound [of a] byte_bound [of b] byte_bound [of c] by simp
  with 1 group24_bound show ?case by auto
next
  case (2 a b)
  have "unat a * 65536 + unat b * 256 < 16777216"
    using byte_bound [of a] byte_bound [of b] by simp
  from group24_bound [OF this] show ?case by (auto dest: in_set_takeD)
next
  case (3 a)
  have "unat a * 65536 < 16777216"
    using byte_bound [of a] by simp
  from group24_bound [OF this] show ?case by (auto dest: in_set_takeD)
next
  case 4
  show ?case by simp
qed

lemma length_encoded_mod: "(length (sextets bs) + (3 - length bs mod 3) mod 3) mod 4 = 0"
proof (induction bs rule: sextets.induct)
  case (1 a b c r)
  have step: "(L + k) mod 4 = 0 \<Longrightarrow> (L + 4 + k) mod 4 = 0" for L k :: nat
    by presburger
  have "length (a # b # c # r) mod 3 = length r mod 3" by simp
  moreover have "length (sextets (a # b # c # r)) = length (sextets r) + 4"
    by (simp add: length_group24)
  moreover have "(length (sextets r) + 4 + (3 - length r mod 3) mod 3) mod 4 = 0"
    by (rule step) (rule 1)
  ultimately show ?case by (simp only:)
qed (simp_all add: length_group24)

lemma length_sextets_not1: "length (sextets bs) mod 4 \<noteq> Suc 0"
  by (induction bs rule: sextets.induct) (simp_all add: length_group24)

lemma unsextets_sextets: "unsextets (sextets bs) = bs"
proof (induction bs rule: sextets.induct)
  case (1 a b c r)
  let ?n = "unat a * 65536 + unat b * 256 + unat c"
  have "unsextets (group24 ?n @ sextets r) =
        bytes24 (?n div 262144 * 262144 + ?n div 4096 mod 64 * 4096 + ?n div 64 mod 64 * 64
                 + ?n mod 64)
        @ unsextets (sextets r)"
    by (simp add: group24_def)
  also have "\<dots> = [a, b, c] @ r"
    unfolding group24_join bytes24_abc using 1 by simp
  finally show ?case by simp
next
  case (2 a b)
  let ?n = "unat a * 65536 + unat b * 256 + unat (0::byte)"
  have z: "?n mod 64 = 0"
  proof -
    have "?n = (unat a * 1024 + unat b * 4) * 64" by simp
    then show ?thesis by (metis mod_mult_self2_is_0)
  qed
  have "unsextets (sextets [a, b]) =
        take 2 (bytes24 (?n div 262144 * 262144 + ?n div 4096 mod 64 * 4096
                         + ?n div 64 mod 64 * 64 + ?n mod 64))"
    unfolding z by (simp add: group24_def)
  also have "\<dots> = [a, b]"
    unfolding group24_join bytes24_abc by simp
  finally show ?case .
next
  case (3 a)
  let ?n = "unat a * 65536 + unat (0::byte) * 256 + unat (0::byte)"
  have z: "?n mod 64 = 0"
  proof -
    have "?n = (unat a * 1024) * 64" by simp
    then show ?thesis by (metis mod_mult_self2_is_0)
  qed
  have z2: "?n div 64 mod 64 = 0"
  proof -
    have "?n div 64 = (unat a * 16) * 64" by simp
    then show ?thesis by (metis mod_mult_self2_is_0)
  qed
  have "unsextets (sextets [a]) =
        take 1 (bytes24 (?n div 262144 * 262144 + ?n div 4096 mod 64 * 4096
                         + ?n div 64 mod 64 * 64 + ?n mod 64))"
    unfolding z z2 by (simp add: group24_def)
  also have "\<dots> = [a]"
    unfolding group24_join bytes24_abc by simp
  finally show ?case .
next
  case 4
  show ?case by simp
qed

lemma those_map_Some:
  "\<forall>x \<in> set xs. f x = Some (g x) \<Longrightarrow> those (map f xs) = Some (map g xs)"
  by (induction xs) simp_all

lemma those_b64_index:
  assumes "\<forall>n \<in> set sx. n < 64"
  shows "those (map b64_index (map b64_char sx)) = Some sx"
proof -
  have "\<forall>n \<in> set sx. (b64_index \<circ> b64_char) n = Some (id n)"
    using assms by (simp add: b64_index_char)
  from those_map_Some [OF this] show ?thesis by (simp add: comp_def)
qed

lemma filter_ws_encoded:
  assumes "\<forall>n \<in> set sx. n < 64"
  shows "filter (\<lambda>u. \<not> ascii_whitespace u) (map b64_char sx @ replicate k 61)
         = map b64_char sx @ replicate k 61"
proof -
  have "\<not> ascii_whitespace 61" by (simp add: ascii_whitespace_def)
  with assms show ?thesis by (auto simp: filter_id_conv b64_char_not_ws)
qed

lemma strip_padding_encoded:
  assumes sx: "\<forall>n \<in> set sx. n < 64"
    and k: "k \<le> 2"
    and len: "(length sx + k) mod 4 = 0"
  shows "strip_padding (map b64_char sx @ replicate k 61) = map b64_char sx"
proof -
  let ?d = "map b64_char sx @ replicate k 61"
  have l4: "length ?d mod 4 = 0" using len by simp
  have nopad: "\<forall>u \<in> set (rev (map b64_char sx)). u \<noteq> 61"
    using sx by (auto simp: b64_char_not_pad)
  consider "k = 0" | "k = 1" | "k = 2" using k by linarith
  then show ?thesis
  proof cases
    case 1
    show ?thesis
    proof (cases "rev (map b64_char sx)")
      case Nil
      with 1 show ?thesis unfolding strip_padding_def by simp
    next
      case (Cons u t)
      with nopad have "u \<noteq> 61" by simp
      moreover have "rev ?d = u # t" using 1 Cons by simp
      ultimately show ?thesis using 1 unfolding strip_padding_def
        by (simp split: list.splits)
    qed
  next
    case 2
    then have "sx \<noteq> []" using len by auto
    then obtain v r where vr: "rev (map b64_char sx) = v # r"
      by (cases "rev (map b64_char sx)") auto
    with nopad have "v \<noteq> 61" by simp
    moreover have "rev ?d = 61 # v # r" using 2 vr by simp
    moreover have "rev (v # r) = map b64_char sx" using vr by (metis rev_rev_ident)
    ultimately show ?thesis using l4 unfolding strip_padding_def by simp
  next
    case 3
    then have "rev ?d = 61 # 61 # rev (map b64_char sx)"
      by (simp add: numeral_2_eq_2)
    then show ?thesis using l4 unfolding strip_padding_def by simp
  qed
qed

lemma atob_encoded: "atob (base64_encode bs) = Inr (map ucast bs)"
proof -
  let ?k = "(3 - length bs mod 3) mod 3"
  let ?sx = "sextets bs"
  have k: "?k \<le> 2" by simp
  note sb = sextets_bound [of bs]
  have d: "strip_padding (filter (\<lambda>u. \<not> ascii_whitespace u) (map b64_char ?sx @ replicate ?k 61))
           = map b64_char ?sx"
    unfolding filter_ws_encoded [OF sb]
    by (rule strip_padding_encoded [OF sb k length_encoded_mod])
  show ?thesis
    unfolding atob_def base64_encode_def d Let_def
    using those_b64_index [OF sb]
    by (simp add: length_sextets_not1 unsextets_sextets comp_def)
qed

lemma binary_string: "foldl (\<lambda>acc byte. acc @ [ucast byte]) acc bs = acc @ map ucast bs"
  by (induction bs arbitrary: acc) simp_all

lemma byte_code_unit_le: "\<not> 255 < (ucast (b :: byte) :: code_unit)"
proof -
  have "uint (ucast b :: code_unit) = uint b" by (simp add: uint_up_ucast is_up)
  moreover have "uint b < 256" using uint_bounded [of b] by simp
  ultimately show ?thesis by (simp add: word_less_def)
qed

lemma ucast_byte_roundtrip: "(ucast (ucast (b :: byte) :: code_unit) :: byte) = b"
  by (simp add: ucast_up_ucast_id is_up)

lemma btoa_binary: "btoa (map ucast (bs :: bytes)) = Inr (base64_encode bs)"
proof -
  have "\<not> list_ex (\<lambda>u. 255 < u) (map ucast bs :: js_string)"
    by (simp add: list_ex_iff byte_code_unit_le)
  moreover have "(map ucast (map ucast bs :: js_string) :: bytes) = bs"
    by (simp add: ucast_byte_roundtrip comp_def)
  ultimately show ?thesis unfolding btoa_def by simp
qed

lemma uint8_fill:
  "k \<le> length binary \<Longrightarrow>
   foldl (\<lambda>bs i. bs[i := ucast (binary ! i)]) (replicate (length binary) (0::byte)) [0..<k]
   = map ucast (take k binary) @ replicate (length binary - k) 0"
proof (induction k)
  case 0
  show ?case by simp
next
  case (Suc k)
  then have k: "k < length binary" by simp
  have r: "replicate (length binary - k) (0::byte) = 0 # replicate (length binary - Suc k) 0"
    using k by (metis Suc_diff_Suc replicate_Suc)
  show ?case using Suc k
    by (simp add: r list_update_append take_Suc_conv_app_nth)
qed

lemma arrayBufferToBase64_eq: "arrayBufferToBase64 bs = Inr (base64_encode bs)"
  unfolding arrayBufferToBase64_def Let_def binary_string by (simp add: btoa_binary)

lemma base64ToArrayBuffer_encoded: "base64ToArrayBuffer (base64_encode bs) = Inr bs"
proof -
  let ?binary = "map ucast bs :: js_string"
  have "foldl (\<lambda>bs i. bs[i := ucast (?binary ! i)]) (replicate (length ?binary) (0::byte))
          [0..<length ?binary]
        = map ucast (take (length ?binary) ?binary) @ replicate (length ?binary - length ?binary) 0"
    by (rule uint8_fill) simp
  also have "\<dots> = bs" by (simp add: ucast_byte_roundtrip comp_def)
  finally show ?thesis
    unfolding base64ToArrayBuffer_def atob_encoded by simp
qed

lemma base64_encode_inject: "base64_encode a = base64_encode b \<Longrightarrow> a = b"
  by (metis base64ToArrayBuffer_encoded sum.inject(2))

section \<open>Facts about the utilities\<close>

lemma and_then_Inr: "and_then (Inr v) f = f v"
  by (simp add: and_then_def)

lemma and_then_Inl: "and_then (Inl e) f = Inl e"
  by (simp add: and_then_def)

lemma rethrow_Inr: "rethrow prefix (Inr v) = Inr v"
  by (simp add: rethrow_def)

lemma rethrow_Inl: "rethrow prefix (Inl e) = Inl (Error (str prefix @ message e))"
  by (simp add: rethrow_def)

lemma str_append: "str a @ str b = str (a @ b)"
  by (simp add: str_def)

lemma double_prefix:
  "str ''Decryption failed: '' @ message decryption_failed =
   str ''Decryption failed: Decryption failed: Invalid key or corrupted data''"
  by (simp add: decryption_failed_def str_append)

lemma deriveKey_eq:
  "deriveKey W password salt =
     Inr (PBKDF2_SHA256 W (TextEncoder_encode W password) salt PBKDF2_ITERATIONS 256)"
  by (simp add: deriveKey_def subtle_deriveKey_def subtle_deriveBits_def subtle_importKey_def)

lemma hashPassword_eq:
  "hashPassword W password salt =
     Inr (base64_encode (PBKDF2_SHA256 W (TextEncoder_encode W password) salt PBKDF2_ITERATIONS 256))"
  by (simp add: hashPassword_def subtle_deriveBits_def subtle_importKey_def arrayBufferToBase64_eq)

lemma length_generateIV: "length (fst (generateIV g)) = IV_LENGTH"
  by (simp add: generateIV_def getRandomValues_def)

lemma generateIV_draw: "generateIV g = (map g [0..<12], \<lambda>i. g (i + 12))"
  by (simp add: generateIV_def getRandomValues_def IV_LENGTH_def)

lemma second_draw: "map (\<lambda>i. g (i + 12)) [0..<12] = map g [12..<24]"
proof -
  have "map g (map (\<lambda>i. i + 12) [0..<12]) = map g [12..<24]"
    by (simp only: map_add_upt) simp
  then show ?thesis by (simp add: comp_def)
qed

lemma encryptData_iv:
  "encryptData W data key (Some iv) =
     AES_GCM_encrypt W key iv (TAG_LENGTH * 8)
       (TextEncoder_encode W (case JSON_stringify W data of None \<Rightarrow> [] | Some s \<Rightarrow> s))"
  by (simp add: encryptData_def subtle_encrypt_def)

lemma encryptData_no_iv: "encryptData W data key None = Inl missing_iv"
  by (simp add: encryptData_def subtle_encrypt_def)

lemma decryptData_no_iv: "decryptData W c key None = Inl decryption_failed"
  by (simp add: decryptData_def subtle_decrypt_def)

lemma decryptData_tag:
  "AES_GCM_decrypt W key iv (TAG_LENGTH * 8) c = Inl e \<Longrightarrow>
   decryptData W c key (Some iv) = Inl decryption_failed"
  by (simp add: decryptData_def subtle_decrypt_def)

lemma decryptData_parse:
  "AES_GCM_decrypt W key iv (TAG_LENGTH * 8) c = Inr buf \<Longrightarrow>
   decryptData W c key (Some iv) =
     (case JSON_parse W (TextDecoder_decode W buf) of
        Inl e \<Rightarrow> Inl decryption_failed | Inr v \<Rightarrow> Inr v)"
  by (simp add: decryptData_def subtle_decrypt_def)

lemma encryptNote_sealed:
  assumes "encryptData W R (PBKDF2_SHA256 W (TextEncoder_encode W P) S PBKDF2_ITERATIONS 256)
             (Some (fst (generateIV g))) = Inr c"
  shows "encryptNote W g R P S =
           (Inr \<lparr>env_data = base64_encode c, env_iv = base64_encode (fst (generateIV g)),
                 env_salt = base64_encode S\<rparr>, snd (generateIV g))"
  using assms
  by (simp add: encryptNote_def deriveKey_eq case_prod_beta and_then_Inr rethrow_Inr
        arrayBufferToBase64_eq)

lemma encryptNote_failed:
  assumes "encryptData W R (PBKDF2_SHA256 W (TextEncoder_encode W P) S PBKDF2_ITERATIONS 256)
             (Some (fst (generateIV g))) = Inl e"
  shows "fst (encryptNote W g R P S) = Inl (Error (str ''Encryption failed: '' @ message e))"
  using assms
  by (simp add: encryptNote_def deriveKey_eq case_prod_beta and_then_Inl rethrow_Inl)

lemma sealed_envelope:
  assumes "encryptNote W g R P S = (Inr env, g')"
  shows "\<exists>c. AES_GCM_encrypt W (PBKDF2_SHA256 W (TextEncoder_encode W P) S PBKDF2_ITERATIONS 256)
                (fst (generateIV g)) (TAG_LENGTH * 8)
                (TextEncoder_encode W (case JSON_stringify W R of None \<Rightarrow> [] | Some s \<Rightarrow> s)) = Inr c
             \<and> env = \<lparr>env_data = base64_encode c, env_iv = base64_encode (fst (generateIV g)),
                       env_salt = base64_encode S\<rparr>
             \<and> g' = snd (generateIV g)"
proof (cases "encryptData W R (PBKDF2_SHA256 W (TextEncoder_encode W P) S PBKDF2_ITERATIONS 256)
                (Some (fst (generateIV g)))")
  case (Inl e)
  from encryptNote_failed [OF this] assms show ?thesis by simp
next
  case (Inr c)
  from encryptNote_sealed [OF this] assms Inr show ?thesis
    by (simp add: encryptData_iv)
qed

lemma decryptNote_encoded:
  "decryptNote W \<lparr>env_data = base64_encode c, env_iv = base64_encode iv, env_salt = base64_encode S\<rparr> P
   = rethrow ''Decryption failed: ''
       (decryptData W c (PBKDF2_SHA256 W (TextEncoder_encode W P) S PBKDF2_ITERATIONS 256) (Some iv))"
  by (simp add: decryptNote_def base64ToArrayBuffer_encoded and_then_Inr deriveKey_eq)

lemma read_fields_failed:
  "decryptData W e key None = Inl err \<Longrightarrow> read_fields W key e = Inl err"
  by (simp add: read_fields_def and_then_Inl)

lemma decrypted_flagged:
  assumes "d_encryptedData d = Some e" and "decryptData W e key None = Inl err"
  shows "decrypted W key (noteId, d) =
           \<lparr>n_id = noteId, n_doc = d,
            n_title = Some (JString (str ''[Decryption Error]'')),
            n_content = Some (JString (str ''[Unable to decrypt note content]''))\<rparr>"
  using assms by (simp add: decrypted_def read_fields_failed decryption_error_def)

lemma collect_notes_keeps:
  "doc \<in> set docs \<Longrightarrow> tags = [] \<or> hasTag tags (decrypted W key doc) \<Longrightarrow>
   decrypted W key doc \<in> set (collect_notes W key tags docs)"
  by (induction docs) (auto simp: Let_def)

section \<open>The small platform meets the assumptions\<close>

lemma toy_platform_simps:
  "TextEncoder_encode toy_platform = map ucast"
  "TextDecoder_decode toy_platform = map ucast"
  "JSON_stringify toy_platform = toy_stringify"
  "JSON_parse toy_platform = toy_parse"
  "PBKDF2_SHA256 toy_platform = toy_pbkdf2"
  "AES_GCM_encrypt toy_platform = toy_encrypt"
  "AES_GCM_decrypt toy_platform = toy_decrypt"
  by (simp_all add: toy_platform_def)

lemma length_toy_tag: "length (toy_tag key iv ct) = 16"
  by (simp add: toy_tag_def)

lemma toy_decrypt_append:
  "toy_decrypt key iv n (ct @ tg) =
     (if length tg = 16 then
        (if tg = toy_tag key iv ct then Inr (map (\<lambda>b. b XOR xor_sum key) ct)
         else Inl operation_error)
      else toy_decrypt key iv n (ct @ tg))"
  by (simp add: toy_decrypt_def)

lemma xor_sum_Nil: "xor_sum [] = 0"
  by (simp add: xor_sum_def)

lemma xor_sum_Cons: "xor_sum (x # xs) = x XOR xor_sum xs"
  by (simp add: xor_sum_def)

lemma xor_sum_zeros: "xor_sum (replicate n 0) = 0"
  by (induction n) (simp_all add: xor_sum_def)

lemma replicate_3: "replicate 3 x = [x, x, x]"
  by (simp add: numeral_3_eq_3)

lemma toy_aead_encrypts: "aead_encrypts toy_platform"
  by (simp add: aead_encrypts_def toy_platform_simps toy_encrypt_def Let_def)

lemma toy_aead_correct: "aead_correct toy_platform"
proof -
  have "toy_decrypt key iv n c = Inr data" if "toy_encrypt key iv n data = Inr c"
    for key iv n data c
  proof -
    let ?ct = "map (\<lambda>b. b XOR xor_sum key) data"
    from that have c: "c = ?ct @ toy_tag key iv ?ct"
      by (auto simp: toy_encrypt_def Let_def)
    have "map (\<lambda>b. b XOR xor_sum key) ?ct = data"
      by (simp add: comp_def xor.assoc)
    then show ?thesis
      unfolding c by (subst toy_decrypt_append) (simp add: length_toy_tag)
  qed
  then show ?thesis by (simp add: aead_correct_def toy_platform_simps)
qed

lemma toy_aead_iv_sensitive: "aead_iv_sensitive toy_platform"
proof -
  have "c \<noteq> c'"
    if "length iv = 12" "length iv' = 12" "iv \<noteq> iv'"
      "toy_encrypt key iv n data = Inr c" "toy_encrypt key iv' n data = Inr c'"
    for key iv iv' n data c c'
  proof -
    have "take 15 (iv @ replicate 15 (0::byte)) = iv @ replicate 3 0"
         "take 15 (iv' @ replicate 15 (0::byte)) = iv' @ replicate 3 0"
      using that(1,2) by simp_all
    with that(3) have "toy_tag key iv ct \<noteq> toy_tag key iv' ct" for ct
      by (simp add: toy_tag_def)
    with that(4,5) show ?thesis
      by (auto simp: toy_encrypt_def Let_def)
  qed
  then show ?thesis
    unfolding aead_iv_sensitive_def toy_platform_simps IV_LENGTH_def by blast
qed

lemma bit_mask_nonzero: "push_bit (i mod 8) (1::byte) \<noteq> 0"
proof -
  have "i mod 8 < 8" by simp
  then consider "i mod 8 = 0" | "i mod 8 = 1" | "i mod 8 = 2" | "i mod 8 = 3"
    | "i mod 8 = 4" | "i mod 8 = 5" | "i mod 8 = 6" | "i mod 8 = 7"
    by linarith
  then show ?thesis by cases simp_all
qed

lemma xor_sum_update:
  "n < length xs \<Longrightarrow> xor_sum (xs[n := xs ! n XOR m]) = xor_sum xs XOR m"
proof (induction xs arbitrary: n)
  case Nil
  then show ?case by simp
next
  case (Cons x xs)
  then show ?case
    by (cases n) (simp_all add: xor_sum_def xor.assoc xor.left_commute xor.commute)
qed

lemma xor_changes: "m \<noteq> 0 \<Longrightarrow> x XOR m \<noteq> (x::byte)"
  by (metis xor.left_neutral xor.assoc xor_self_eq)

lemma xor_right_cancel: "a XOR k = b XOR k \<longleftrightarrow> a = (b::byte)"
  by (metis xor.assoc xor_self_eq xor.right_neutral)

lemma update_changes: "n < length xs \<Longrightarrow> m \<noteq> 0 \<Longrightarrow> xs[n := xs ! n XOR m] \<noteq> (xs :: bytes)"
  by (metis nth_list_update_eq xor_changes)

lemma toy_aead_authentic: "aead_authentic toy_platform key"
proof -
  have "\<exists>e. toy_decrypt key iv n (flip_bit_at i c) = Inl e"
    if enc: "toy_encrypt key iv n data = Inr c" and i: "i < 8 * length c"
    for iv n data c i
  proof -
    let ?ct = "map (\<lambda>b. b XOR xor_sum key) data"
    let ?tg = "toy_tag key iv ?ct"
    let ?m = "push_bit (i mod 8) (1::byte)"
    let ?j = "i div 8"
    from enc have c: "c = ?ct @ ?tg"
      by (auto simp: toy_encrypt_def Let_def)
    from i have j: "?j < length c" by simp
    note m = bit_mask_nonzero [of i]
    show ?thesis
    proof (cases "?j < length ?ct")
      case True
      let ?ct' = "?ct[?j := ?ct ! ?j XOR ?m]"
      have f: "flip_bit_at i c = ?ct' @ ?tg"
        using True unfolding flip_bit_at_def c
        by (simp add: list_update_append nth_append del: length_map)
      have "xor_sum ?ct' \<noteq> xor_sum ?ct"
        using True m by (simp add: xor_sum_update xor_changes del: length_map)
      then have "?tg \<noteq> toy_tag key iv ?ct'"
        by (simp add: toy_tag_def xor_right_cancel)
      then show ?thesis
        unfolding f by (subst toy_decrypt_append) (simp add: length_toy_tag)
    next
      case False
      let ?k = "?j - length ?ct"
      let ?tg' = "?tg[?k := ?tg ! ?k XOR ?m]"
      from False j have k: "?k < length ?tg" unfolding c by simp
      have f: "flip_bit_at i c = ?ct @ ?tg'"
        using False unfolding flip_bit_at_def c
        by (simp add: list_update_append nth_append del: length_map)
      have "?tg' \<noteq> ?tg" by (rule update_changes [OF k m])
      then show ?thesis
        unfolding f by (subst toy_decrypt_append) (simp add: length_toy_tag)
    qed
  qed
  then show ?thesis
    unfolding aead_authentic_def toy_platform_simps by blast
qed

lemma toy_json_serialisable: "json_serialisable toy_platform toy_note"
proof -
  have "map ucast (map ucast toy_json :: bytes) = toy_json"
    by (simp add: toy_json_def str_def)
  then show ?thesis
    by (simp add: json_serialisable_def toy_platform_simps toy_stringify_def toy_parse_def)
qed

lemma toy_key: "deriveKey toy_platform toy_password toy_salt = Inr (29 # replicate 31 0)"
  by (simp add: deriveKey_eq toy_platform_simps toy_pbkdf2_def xor_sum_def toy_password_def
        toy_salt_def str_def)

lemma toy_sealed:
  "\<exists>c. encryptNote toy_platform toy_entropy toy_note toy_password toy_salt =
          (Inr \<lparr>env_data = base64_encode c,
                env_iv = base64_encode (fst (generateIV toy_entropy)),
                env_salt = base64_encode toy_salt\<rparr>, snd (generateIV toy_entropy))
       \<and> 16 \<le> length c"
proof -
  let ?key = "PBKDF2_SHA256 toy_platform (TextEncoder_encode toy_platform toy_password) toy_salt
                PBKDF2_ITERATIONS 256"
  let ?iv = "fst (generateIV toy_entropy)"
  let ?ct = "map (\<lambda>b. b XOR xor_sum ?key) (map ucast toy_json)"
  let ?c = "?ct @ toy_tag ?key ?iv ?ct"
  have "encryptData toy_platform toy_note ?key (Some ?iv) = Inr ?c"
    by (simp add: encryptData_iv toy_platform_simps toy_encrypt_def toy_stringify_def Let_def)
  from encryptNote_sealed [OF this] show ?thesis
    by (intro exI [of _ ?c]) (simp add: length_toy_tag)
qed

lemma toy_fresh: "map toy_entropy [0..<12] \<noteq> map toy_entropy [12..<24]"
  by (simp add: toy_entropy_def upt_rec)

section \<open>Sealing and opening\<close>

text \<open>
  C1. Round trip: for every record \<open>R\<close> that is JSON-serialisable, every password \<open>P\<close>,
  every salt \<open>S\<close> and every state \<open>g\<close> of the random source, \<^verbatim>\<open>encryptNote(R, P, S)\<close>
  returns an envelope, and \<^verbatim>\<open>decryptNote\<close> of that envelope with \<open>P\<close> returns \<open>R\<close>. The
  platform is assumed to encrypt and to decrypt what it encrypted.
\<close>

theorem seal_open_roundtrip:
  assumes enc: "aead_encrypts W" and cor: "aead_correct W" and ser: "json_serialisable W R"
  shows "\<exists>env g'. encryptNote W g R P S = (Inr env, g') \<and> decryptNote W env P = Inr R"
proof -
  let ?key = "PBKDF2_SHA256 W (TextEncoder_encode W P) S PBKDF2_ITERATIONS 256"
  let ?iv = "fst (generateIV g)"
  from ser obtain s where s: "JSON_stringify W R = Some s"
    and parsed: "JSON_parse W (TextDecoder_decode W (TextEncoder_encode W s)) = Inr R"
    unfolding json_serialisable_def by blast
  from enc length_generateIV obtain c
    where c: "AES_GCM_encrypt W ?key ?iv (TAG_LENGTH * 8) (TextEncoder_encode W s) = Inr c"
    unfolding aead_encrypts_def by blast
  then have "encryptData W R ?key (Some ?iv) = Inr c"
    by (simp add: encryptData_iv s)
  from encryptNote_sealed [OF this]
  have sealed: "encryptNote W g R P S =
      (Inr \<lparr>env_data = base64_encode c, env_iv = base64_encode ?iv, env_salt = base64_encode S\<rparr>,
       snd (generateIV g))" .
  from cor c have "AES_GCM_decrypt W ?key ?iv (TAG_LENGTH * 8) c = Inr (TextEncoder_encode W s)"
    unfolding aead_correct_def by blast
  then have "decryptData W c ?key (Some ?iv) = Inr R"
    by (simp add: decryptData_parse parsed)
  then have "decryptNote W
      \<lparr>env_data = base64_encode c, env_iv = base64_encode ?iv, env_salt = base64_encode S\<rparr> P = Inr R"
    by (simp add: decryptNote_encoded rethrow_Inr)
  with sealed show ?thesis by blast
qed

text \<open>
  The round trip on the small platform: the note \<^verbatim>\<open>{"title":"A","content":"B"}\<close> under the
  password \<^verbatim>\<open>CorrectHorse1!\<close>.
\<close>

theorem seal_open_roundtrip_witness:
  "aead_encrypts toy_platform \<and> aead_correct toy_platform \<and>
   json_serialisable toy_platform toy_note \<and>
   (\<exists>env g'. encryptNote toy_platform toy_entropy toy_note toy_password toy_salt = (Inr env, g') \<and>
      decryptNote toy_platform env toy_password = Inr toy_note)"
  using seal_open_roundtrip [OF toy_aead_encrypts toy_aead_correct toy_json_serialisable,
      of toy_entropy toy_password toy_salt]
    toy_aead_encrypts toy_aead_correct toy_json_serialisable
  by blast

text \<open>
  C2. Tamper detection: take an envelope that \<^verbatim>\<open>encryptNote\<close> returned and flip any one
  bit \<open>i\<close> of its ciphertext \<open>c\<close> (the decoded \<^verbatim>\<open>data\<close> field, tag included). Under a key that
  authenticates, \<^verbatim>\<open>decryptData\<close> with the right key and IV fails with the error the code
  throws for a failed decryption, \<^verbatim>\<open>Decryption failed: Invalid key or corrupted data\<close>, and
  \<^verbatim>\<open>decryptNote\<close> of the envelope that holds the flipped ciphertext fails with that error
  wrapped once more; neither returns a value.
\<close>

theorem tamper_detection:
  assumes key: "deriveKey W P S = Inr key"
    and auth: "aead_authentic W key"
    and sealed: "encryptNote W g R P S = (Inr env, g')"
    and data: "base64ToArrayBuffer (env_data env) = Inr c"
    and i: "i < 8 * length c"
  shows "\<exists>env' iv.
           tamper i env = Inr env' \<and> base64ToArrayBuffer (env_iv env) = Inr iv \<and>
           decryptData W (flip_bit_at i c) key (Some iv) =
             Inl (Error (str ''Decryption failed: Invalid key or corrupted data'')) \<and>
           decryptNote W env' P =
             Inl (Error (str ''Decryption failed: Decryption failed: Invalid key or corrupted data''))"
proof -
  let ?iv = "fst (generateIV g)"
  from key have k: "PBKDF2_SHA256 W (TextEncoder_encode W P) S PBKDF2_ITERATIONS 256 = key"
    by (simp add: deriveKey_eq)
  from sealed_envelope [OF sealed] obtain c0
    where enc: "AES_GCM_encrypt W key ?iv (TAG_LENGTH * 8)
                 (TextEncoder_encode W (case JSON_stringify W R of None \<Rightarrow> [] | Some s \<Rightarrow> s)) = Inr c0"
      and env: "env = \<lparr>env_data = base64_encode c0, env_iv = base64_encode ?iv,
                        env_salt = base64_encode S\<rparr>"
    unfolding k by blast
  from data have c: "c0 = c" by (simp add: env base64ToArrayBuffer_encoded)
  from auth enc i obtain e
    where "AES_GCM_decrypt W key ?iv (TAG_LENGTH * 8) (flip_bit_at i c) = Inl e"
    unfolding aead_authentic_def c by blast
  from decryptData_tag [OF this]
  have failed: "decryptData W (flip_bit_at i c) key (Some ?iv) = Inl decryption_failed" .
  let ?env' = "\<lparr>env_data = base64_encode (flip_bit_at i c), env_iv = base64_encode ?iv,
                 env_salt = base64_encode S\<rparr>"
  have t: "tamper i env = Inr ?env'"
    by (simp add: tamper_def env c base64ToArrayBuffer_encoded and_then_Inr arrayBufferToBase64_eq)
  have "decryptNote W ?env' P = Inl (Error (str ''Decryption failed: '' @ message decryption_failed))"
    by (simp add: decryptNote_encoded k failed rethrow_Inl)
  then have n: "decryptNote W ?env' P =
      Inl (Error (str ''Decryption failed: Decryption failed: Invalid key or corrupted data''))"
    by (simp only: double_prefix)
  have iv: "base64ToArrayBuffer (env_iv env) = Inr ?iv"
    by (simp add: env base64ToArrayBuffer_encoded)
  from failed have f: "decryptData W (flip_bit_at i c) key (Some ?iv) =
      Inl (Error (str ''Decryption failed: Invalid key or corrupted data''))"
    by (simp add: decryption_failed_def)
  from t iv f n show ?thesis by blast
qed

text \<open>Bit 5 of the ciphertext of the note sealed on the small platform.\<close>

theorem tamper_detection_witness:
  "deriveKey toy_platform toy_password toy_salt = Inr (29 # replicate 31 0) \<and>
   aead_authentic toy_platform (29 # replicate 31 0) \<and>
   (\<exists>env g' env'.
      encryptNote toy_platform toy_entropy toy_note toy_password toy_salt = (Inr env, g') \<and>
      tamper 5 env = Inr env' \<and>
      decryptNote toy_platform env' toy_password =
        Inl (Error (str ''Decryption failed: Decryption failed: Invalid key or corrupted data'')))"
proof -
  from toy_sealed obtain c
    where sealed: "encryptNote toy_platform toy_entropy toy_note toy_password toy_salt =
          (Inr \<lparr>env_data = base64_encode c,
                env_iv = base64_encode (fst (generateIV toy_entropy)),
                env_salt = base64_encode toy_salt\<rparr>, snd (generateIV toy_entropy))"
      and len: "16 \<le> length c"
    by blast
  have data: "base64ToArrayBuffer (env_data \<lparr>env_data = base64_encode c,
                env_iv = base64_encode (fst (generateIV toy_entropy)),
                env_salt = base64_encode toy_salt\<rparr>) = Inr c"
    by (simp add: base64ToArrayBuffer_encoded)
  from len have i: "5 < 8 * length c" by simp
  note key = toy_key
  note auth = toy_aead_authentic [of "29 # replicate 31 0"]
  from tamper_detection [OF key auth sealed data i] sealed key auth
  show ?thesis by blast
qed

text \<open>
  C5. Error taxonomy of open. The code has one error for both failures:
  \<^verbatim>\<open>decryptData\<close> catches whatever \<^verbatim>\<open>crypto.subtle.decrypt\<close>, the decoder or \<^verbatim>\<open>JSON.parse\<close>
  throws and throws \<^verbatim>\<open>Decryption failed: Invalid key or corrupted data\<close>. So a tag that
  does not verify and a plaintext that does not parse give the same error from
  \<^verbatim>\<open>decryptData\<close>, and the same error from \<^verbatim>\<open>decryptNote\<close>; a caller cannot tell them apart.
\<close>

theorem decrypt_failures_uniform:
  assumes "deriveKey W P S = Inr key"
    and "(\<exists>e. AES_GCM_decrypt W key iv (TAG_LENGTH * 8) c = Inl e) \<or>
         (\<exists>buf e. AES_GCM_decrypt W key iv (TAG_LENGTH * 8) c = Inr buf \<and>
                  JSON_parse W (TextDecoder_decode W buf) = Inl e)"
  shows "decryptData W c key (Some iv) =
           Inl (Error (str ''Decryption failed: Invalid key or corrupted data'')) \<and>
         decryptNote W \<lparr>env_data = base64_encode c, env_iv = base64_encode iv,
                        env_salt = base64_encode S\<rparr> P =
           Inl (Error (str ''Decryption failed: Decryption failed: Invalid key or corrupted data''))"
proof -
  from assms(1) have k: "PBKDF2_SHA256 W (TextEncoder_encode W P) S PBKDF2_ITERATIONS 256 = key"
    by (simp add: deriveKey_eq)
  from assms(2) have failed: "decryptData W c key (Some iv) = Inl decryption_failed"
    by (auto simp: decryptData_def subtle_decrypt_def)
  then have "decryptNote W \<lparr>env_data = base64_encode c, env_iv = base64_encode iv,
                              env_salt = base64_encode S\<rparr> P =
      Inl (Error (str ''Decryption failed: '' @ message decryption_failed))"
    by (simp add: decryptNote_encoded k rethrow_Inl)
  with failed show ?thesis
    by (simp add: double_prefix) (simp add: decryption_failed_def)
qed

text \<open>
  Both cases on the small platform, under the key derived from the password: a
  ciphertext whose tag is wrong, and the valid ciphertext of the bytes \<^verbatim>\<open>hi\<close>, which are
  not JSON.
\<close>

theorem decrypt_failures_uniform_witness:
  "decryptData toy_platform [116, 116, 28, 7, 7, 7, 7, 7, 7, 7, 7, 7, 7, 7, 7, 0, 0, 0]
     (29 # replicate 31 0) (Some [7, 7, 7, 7, 7, 7, 7, 7, 7, 7, 7, 7]) =
     Inl (Error (str ''Decryption failed: Invalid key or corrupted data'')) \<and>
   decryptData toy_platform [117, 116, 28, 7, 7, 7, 7, 7, 7, 7, 7, 7, 7, 7, 7, 0, 0, 0]
     (29 # replicate 31 0) (Some [7, 7, 7, 7, 7, 7, 7, 7, 7, 7, 7, 7]) =
     Inl (Error (str ''Decryption failed: Invalid key or corrupted data''))"
proof -
  let ?iv = "[7, 7, 7, 7, 7, 7, 7, 7, 7, 7, 7, 7] :: bytes"
  let ?key = "29 # replicate 31 0 :: bytes"
  have a: "AES_GCM_decrypt toy_platform ?key ?iv (TAG_LENGTH * 8)
             [116, 116, 28, 7, 7, 7, 7, 7, 7, 7, 7, 7, 7, 7, 7, 0, 0, 0] = Inl operation_error"
    by (simp add: toy_platform_simps toy_decrypt_def toy_tag_def replicate_3
          xor_sum_Nil xor_sum_Cons xor_sum_zeros)
  have b: "AES_GCM_decrypt toy_platform ?key ?iv (TAG_LENGTH * 8)
             [117, 116, 28, 7, 7, 7, 7, 7, 7, 7, 7, 7, 7, 7, 7, 0, 0, 0] = Inr [104, 105]"
    by (simp add: toy_platform_simps toy_decrypt_def toy_tag_def replicate_3
          xor_sum_Nil xor_sum_Cons xor_sum_zeros)
  have p: "JSON_parse toy_platform (TextDecoder_decode toy_platform [104, 105]) =
             Inl (SyntaxError (str ''Unexpected token''))"
    by (simp add: toy_platform_simps toy_parse_def toy_json_def str_def)
  from a have "(\<exists>e. AES_GCM_decrypt toy_platform ?key ?iv (TAG_LENGTH * 8)
             [116, 116, 28, 7, 7, 7, 7, 7, 7, 7, 7, 7, 7, 7, 7, 0, 0, 0] = Inl e) \<or>
         (\<exists>buf e. AES_GCM_decrypt toy_platform ?key ?iv (TAG_LENGTH * 8)
             [116, 116, 28, 7, 7, 7, 7, 7, 7, 7, 7, 7, 7, 7, 7, 0, 0, 0] = Inr buf \<and>
                  JSON_parse toy_platform (TextDecoder_decode toy_platform buf) = Inl e)"
    by blast
  note 1 = decrypt_failures_uniform [OF toy_key this, THEN conjunct1]
  from b p have "(\<exists>e. AES_GCM_decrypt toy_platform ?key ?iv (TAG_LENGTH * 8)
             [117, 116, 28, 7, 7, 7, 7, 7, 7, 7, 7, 7, 7, 7, 7, 0, 0, 0] = Inl e) \<or>
         (\<exists>buf e. AES_GCM_decrypt toy_platform ?key ?iv (TAG_LENGTH * 8)
             [117, 116, 28, 7, 7, 7, 7, 7, 7, 7, 7, 7, 7, 7, 7, 0, 0, 0] = Inr buf \<and>
                  JSON_parse toy_platform (TextDecoder_decode toy_platform buf) = Inl e)"
    by blast
  note 2 = decrypt_failures_uniform [OF toy_key this, THEN conjunct1]
  from 1 2 show ?thesis by blast
qed

text \<open>
  The claim as stated, that the two failures are distinct errors, fails at these two
  inputs: the first has a wrong tag, the second decrypts to bytes that do not parse, and
  \<^verbatim>\<open>decryptData\<close> returns the same for both.
\<close>

theorem error_kinds_counterexample:
  "AES_GCM_decrypt toy_platform (29 # replicate 31 0) [7, 7, 7, 7, 7, 7, 7, 7, 7, 7, 7, 7] 128
     [116, 116, 28, 7, 7, 7, 7, 7, 7, 7, 7, 7, 7, 7, 7, 0, 0, 0] = Inl operation_error \<and>
   AES_GCM_decrypt toy_platform (29 # replicate 31 0) [7, 7, 7, 7, 7, 7, 7, 7, 7, 7, 7, 7] 128
     [117, 116, 28, 7, 7, 7, 7, 7, 7, 7, 7, 7, 7, 7, 7, 0, 0, 0] = Inr [104, 105] \<and>
   JSON_parse toy_platform (TextDecoder_decode toy_platform [104, 105]) =
     Inl (SyntaxError (str ''Unexpected token'')) \<and>
   decryptData toy_platform [116, 116, 28, 7, 7, 7, 7, 7, 7, 7, 7, 7, 7, 7, 7, 0, 0, 0]
     (29 # replicate 31 0) (Some [7, 7, 7, 7, 7, 7, 7, 7, 7, 7, 7, 7]) =
   decryptData toy_platform [117, 116, 28, 7, 7, 7, 7, 7, 7, 7, 7, 7, 7, 7, 7, 0, 0, 0]
     (29 # replicate 31 0) (Some [7, 7, 7, 7, 7, 7, 7, 7, 7, 7, 7, 7])"
  by (simp add: decryptData_def subtle_decrypt_def TAG_LENGTH_def toy_platform_simps
        toy_decrypt_def toy_tag_def toy_parse_def toy_json_def str_def replicate_3
        xor_sum_Nil xor_sum_Cons xor_sum_zeros)

text \<open>
  C6. IV uniqueness: two calls of \<^verbatim>\<open>encryptNote\<close> on the same record, password and
  salt, the second on the random source as the first left it. Each call draws its own
  IV: the first takes bytes 0 to 11 of the source's stream, the second bytes 12 to 23.
  When the two draws differ, the two envelopes differ in their \<^verbatim>\<open>iv\<close> fields, which
  decode to the two draws, and in their \<^verbatim>\<open>data\<close> fields.
\<close>

theorem iv_uniqueness:
  assumes enc: "aead_encrypts W" and sens: "aead_iv_sensitive W"
    and fresh: "map g [0..<12] \<noteq> map g [12..<24]"
  shows "\<exists>e1 g1 e2 g2.
           encryptNote W g R P S = (Inr e1, g1) \<and> encryptNote W g1 R P S = (Inr e2, g2) \<and>
           base64ToArrayBuffer (env_iv e1) = Inr (map g [0..<12]) \<and>
           base64ToArrayBuffer (env_iv e2) = Inr (map g [12..<24]) \<and>
           env_iv e1 \<noteq> env_iv e2 \<and> env_data e1 \<noteq> env_data e2"
proof -
  let ?key = "PBKDF2_SHA256 W (TextEncoder_encode W P) S PBKDF2_ITERATIONS 256"
  let ?pt = "TextEncoder_encode W (case JSON_stringify W R of None \<Rightarrow> [] | Some s \<Rightarrow> s)"
  let ?g1 = "\<lambda>i. g (i + 12)"
  let ?iv1 = "map g [0..<12]"
  let ?iv2 = "map g [12..<24]"
  have d1: "generateIV g = (?iv1, ?g1)" by (rule generateIV_draw)
  have d2: "generateIV ?g1 = (?iv2, \<lambda>i. g (i + 12 + 12))"
    by (simp only: generateIV_draw second_draw)
  have l1: "length ?iv1 = IV_LENGTH" and l2: "length ?iv2 = IV_LENGTH"
    by (simp_all add: IV_LENGTH_def)
  from enc l1 obtain c1
    where c1: "AES_GCM_encrypt W ?key ?iv1 (TAG_LENGTH * 8) ?pt = Inr c1"
    unfolding aead_encrypts_def by blast
  from enc l2 obtain c2
    where c2: "AES_GCM_encrypt W ?key ?iv2 (TAG_LENGTH * 8) ?pt = Inr c2"
    unfolding aead_encrypts_def by blast
  let ?e1 = "\<lparr>env_data = base64_encode c1, env_iv = base64_encode ?iv1, env_salt = base64_encode S\<rparr>"
  let ?e2 = "\<lparr>env_data = base64_encode c2, env_iv = base64_encode ?iv2, env_salt = base64_encode S\<rparr>"
  have "encryptData W R ?key (Some (fst (generateIV g))) = Inr c1"
    by (simp only: d1 fst_conv encryptData_iv c1)
  from encryptNote_sealed [OF this]
  have r1: "encryptNote W g R P S = (Inr ?e1, ?g1)"
    by (simp only: d1 fst_conv snd_conv)
  have "encryptData W R ?key (Some (fst (generateIV ?g1))) = Inr c2"
    by (simp only: d2 fst_conv encryptData_iv c2)
  from encryptNote_sealed [OF this]
  have r2: "encryptNote W ?g1 R P S = (Inr ?e2, \<lambda>i. g (i + 12 + 12))"
    by (simp only: d2 fst_conv snd_conv)
  from sens fresh c1 c2 l1 l2 have "c1 \<noteq> c2"
    unfolding aead_iv_sensitive_def by blast
  then have d: "env_data ?e1 \<noteq> env_data ?e2"
    using base64_encode_inject by auto
  from fresh have v: "env_iv ?e1 \<noteq> env_iv ?e2"
    using base64_encode_inject by auto
  have b1: "base64ToArrayBuffer (env_iv ?e1) = Inr ?iv1"
    and b2: "base64ToArrayBuffer (env_iv ?e2) = Inr ?iv2"
    by (simp_all add: base64ToArrayBuffer_encoded)
  from r1 r2 b1 b2 v d show ?thesis by blast
qed

text \<open>On the small platform, whose random source counts upwards.\<close>

theorem iv_uniqueness_witness:
  "aead_encrypts toy_platform \<and> aead_iv_sensitive toy_platform \<and>
   map toy_entropy [0..<12] \<noteq> map toy_entropy [12..<24] \<and>
   (\<exists>e1 g1 e2 g2.
      encryptNote toy_platform toy_entropy toy_note toy_password toy_salt = (Inr e1, g1) \<and>
      encryptNote toy_platform g1 toy_note toy_password toy_salt = (Inr e2, g2) \<and>
      base64ToArrayBuffer (env_iv e1) = Inr [0, 1, 2, 3, 4, 5, 6, 7, 8, 9, 10, 11] \<and>
      base64ToArrayBuffer (env_iv e2) = Inr [12, 13, 14, 15, 16, 17, 18, 19, 20, 21, 22, 23] \<and>
      env_iv e1 \<noteq> env_iv e2 \<and> env_data e1 \<noteq> env_data e2)"
proof -
  have a: "map toy_entropy [0..<12] = [0, 1, 2, 3, 4, 5, 6, 7, 8, 9, 10, 11]"
    by (simp add: toy_entropy_def upt_rec)
  have b: "map toy_entropy [12..<24] = [12, 13, 14, 15, 16, 17, 18, 19, 20, 21, 22, 23]"
    by (simp add: toy_entropy_def upt_rec)
  from iv_uniqueness [OF toy_aead_encrypts toy_aead_iv_sensitive toy_fresh,
      of toy_note toy_password toy_salt]
    toy_aead_encrypts toy_aead_iv_sensitive toy_fresh
  show ?thesis unfolding a b by blast
qed

section \<open>Key derivation and the password hash\<close>

text \<open>
  C3. Domain separation. \<^verbatim>\<open>hashPassword\<close> and \<^verbatim>\<open>deriveKey\<close> run the same derivation on the
  same password, salt, iteration count and length, so the hash is the base64 text of the
  key: decoding the hash gives the key that \<^verbatim>\<open>deriveKey\<close> returns. \<^verbatim>\<open>signUp\<close> stores this
  hash beside the salt it was computed with, so the stored document alone yields the
  key of the user's notes.
\<close>

theorem hash_reveals_key:
  "and_then (hashPassword W password salt) base64ToArrayBuffer = deriveKey W password salt \<and>
   (\<exists>doc g'. signUp W g email password displayName = (Inr doc, g') \<and>
      and_then (base64ToArrayBuffer (u_encryptionSalt doc)) (deriveKey W password)
        = base64ToArrayBuffer (u_passwordHash doc))"
proof -
  have "and_then (hashPassword W password salt) base64ToArrayBuffer = deriveKey W password salt"
    by (simp add: hashPassword_eq and_then_Inr base64ToArrayBuffer_encoded deriveKey_eq)
  moreover have "\<exists>doc g'. signUp W g email password displayName = (Inr doc, g') \<and>
      and_then (base64ToArrayBuffer (u_encryptionSalt doc)) (deriveKey W password)
        = base64ToArrayBuffer (u_passwordHash doc)"
    by (simp add: signUp_def case_prod_beta arrayBufferToBase64_eq hashPassword_eq and_then_Inr
          base64ToArrayBuffer_encoded deriveKey_eq)
  ultimately show ?thesis by blast
qed

text \<open>On the small platform the decoded hash and the key are the same 32 bytes.\<close>

theorem hash_reveals_key_witness:
  "and_then (hashPassword toy_platform toy_password toy_salt) base64ToArrayBuffer =
     Inr (29 # replicate 31 0) \<and>
   deriveKey toy_platform toy_password toy_salt = Inr (29 # replicate 31 0)"
  using hash_reveals_key [of toy_platform toy_password toy_salt] toy_key by simp

text \<open>
  C4. Input validation of key derivation. \<^verbatim>\<open>deriveKey\<close> checks neither the secret nor
  the salt: for every secret, the empty one included, and every salt, of any length, it
  returns the key that PBKDF2 derives with 100000 iterations, and it never fails.
\<close>

theorem deriveKey_no_validation:
  "deriveKey W secret salt =
     Inr (PBKDF2_SHA256 W (TextEncoder_encode W secret) salt 100000 256) \<and>
   (\<forall>e. deriveKey W secret salt \<noteq> Inl e)"
  by (simp add: deriveKey_eq PBKDF2_ITERATIONS_def)

text \<open>The empty secret with the empty salt.\<close>

theorem deriveKey_no_validation_witness:
  "deriveKey toy_platform [] [] = Inr (toy_pbkdf2 [] [] 100000 256)"
  using deriveKey_no_validation [of toy_platform "[]" "[]"]
  by (simp add: toy_platform_simps)

text \<open>
  The claim as stated, that \<^verbatim>\<open>deriveKey\<close> fails on an empty secret or on a salt that is
  not 16 bytes long, fails at the empty secret with a salt of three bytes: a key comes
  back.
\<close>

theorem deriveKey_empty_secret_counterexample:
  "deriveKey toy_platform [] [1, 2, 3] = Inr (0 # replicate 31 0)"
  by (simp add: deriveKey_eq toy_platform_simps toy_pbkdf2_def xor_sum_def)

text \<open>
  C7. Determinism of key derivation: the key depends on the secret and the salt alone.
  Two sessions whose platforms have the same PBKDF2 and the same text encoder, whatever
  else differs between them, derive the same key from the same secret and salt; it is
  the PBKDF2 output for 100000 iterations, and it is 256 bits long when PBKDF2 returns
  the length it is asked for.
\<close>

theorem deriveKey_deterministic:
  assumes "PBKDF2_SHA256 W' = PBKDF2_SHA256 W"
    and "TextEncoder_encode W' = TextEncoder_encode W"
    and "\<forall>password salt. length (PBKDF2_SHA256 W password salt 100000 256) = 32"
  shows "deriveKey W' secret salt = deriveKey W secret salt \<and>
         deriveKey W secret salt =
           Inr (PBKDF2_SHA256 W (TextEncoder_encode W secret) salt 100000 256) \<and>
         (\<exists>key. deriveKey W secret salt = Inr key \<and> length key = 32)"
  using assms by (simp add: deriveKey_eq PBKDF2_ITERATIONS_def)

text \<open>The small platform and a variant of it whose cipher always fails.\<close>

theorem deriveKey_deterministic_witness:
  "deriveKey (toy_platform\<lparr>AES_GCM_encrypt := \<lambda>key iv n data. Inl operation_error\<rparr>)
     toy_password toy_salt = deriveKey toy_platform toy_password toy_salt \<and>
   (\<exists>key. deriveKey toy_platform toy_password toy_salt = Inr key \<and> length key = 32)"
proof -
  let ?W' = "toy_platform\<lparr>AES_GCM_encrypt := \<lambda>key iv n data. Inl operation_error\<rparr>"
  have 1: "PBKDF2_SHA256 ?W' = PBKDF2_SHA256 toy_platform" by simp
  have 2: "TextEncoder_encode ?W' = TextEncoder_encode toy_platform" by simp
  have 3: "\<forall>password salt. length (PBKDF2_SHA256 toy_platform password salt 100000 256) = 32"
    by (simp add: toy_platform_simps toy_pbkdf2_def)
  from deriveKey_deterministic [OF 1 2 3, of toy_password toy_salt] show ?thesis by blast
qed

section \<open>Base64 transport\<close>

text \<open>
  C8. For every byte sequence \<open>b\<close>, \<^verbatim>\<open>arrayBufferToBase64(b)\<close> returns a string, and
  \<^verbatim>\<open>base64ToArrayBuffer\<close> of that string returns \<open>b\<close>.
\<close>

theorem base64_roundtrip: "and_then (arrayBufferToBase64 b) base64ToArrayBuffer = Inr b"
  by (simp add: arrayBufferToBase64_eq and_then_Inr base64ToArrayBuffer_encoded)

text \<open>The two bytes of \<^verbatim>\<open>Ma\<close> and their text \<^verbatim>\<open>TWE=\<close>.\<close>

theorem base64_roundtrip_witness:
  "arrayBufferToBase64 [77, 97] = Inr (str ''TWE='') \<and>
   base64ToArrayBuffer (str ''TWE='') = Inr [77, 97]"
proof -
  have e: "arrayBufferToBase64 [77, 97] = Inr (str ''TWE='')"
    by (simp add: arrayBufferToBase64_eq base64_encode_def group24_def b64_char_def
          b64_alphabet_def str_def)
  from base64_roundtrip [of "[77, 97]"] show ?thesis
    by (simp add: e and_then_Inr)
qed

section \<open>Reading and creating notes\<close>

text \<open>
  C9. Flag, don't drop. For a stored note whose \<^verbatim>\<open>encryptedData\<close> fails to decrypt,
  \<^verbatim>\<open>getNotes\<close> returns the note with the markers \<^verbatim>\<open>[Decryption Error]\<close> and
  \<^verbatim>\<open>[Unable to decrypt note content]\<close> in place of its title and content (when the note
  passes the tag filter), but \<^verbatim>\<open>getNote\<close> does not: it throws \<^verbatim>\<open>Failed to get note\<close>.
\<close>

theorem getNote_aborts_where_getNotes_flags:
  assumes "d_encryptedData d = Some e" and "decryptData W e key None = Inl err"
  shows "(fs_getDoc F db noteId = Inr (Some d) \<longrightarrow>
            getNote W F db key noteId = Inl (Error (str ''Failed to get note''))) \<and>
         (fs_getDocs F db (notes_query_of userId options) = Inr docs \<longrightarrow>
          (noteId, d) \<in> set docs \<longrightarrow>
          (opt_tags options = [] \<or> hasTag (opt_tags options) (decrypted W key (noteId, d))) \<longrightarrow>
            (\<exists>notes. getNotes W F db userId key options = Inr notes \<and>
               \<lparr>n_id = noteId, n_doc = d,
                n_title = Some (JString (str ''[Decryption Error]'')),
                n_content = Some (JString (str ''[Unable to decrypt note content]''))\<rparr>
               \<in> set notes))"
proof (intro conjI impI)
  assume "fs_getDoc F db noteId = Inr (Some d)"
  with assms show "getNote W F db key noteId = Inl (Error (str ''Failed to get note''))"
    by (simp add: getNote_def read_fields_failed)
next
  assume docs: "fs_getDocs F db (notes_query_of userId options) = Inr docs"
    and mem: "(noteId, d) \<in> set docs"
    and tags: "opt_tags options = [] \<or> hasTag (opt_tags options) (decrypted W key (noteId, d))"
  from collect_notes_keeps [OF mem tags]
  have "decrypted W key (noteId, d) \<in> set (collect_notes W key (opt_tags options) docs)" .
  then show "\<exists>notes. getNotes W F db userId key options = Inr notes \<and>
               \<lparr>n_id = noteId, n_doc = d,
                n_title = Some (JString (str ''[Decryption Error]'')),
                n_content = Some (JString (str ''[Unable to decrypt note content]''))\<rparr>
               \<in> set notes"
    by (simp add: getNotes_def docs decrypted_flagged [OF assms])
qed

text \<open>A store that holds one note, read both ways.\<close>

theorem getNote_aborts_where_getNotes_flags_witness:
  "getNote toy_platform toy_firestore [(str ''n1'', toy_doc)] [1, 2] (str ''n1'') =
     Inl (Error (str ''Failed to get note'')) \<and>
   (\<exists>notes. getNotes toy_platform toy_firestore [(str ''n1'', toy_doc)] (str ''u1'') [1, 2]
              default_options = Inr notes \<and>
      \<lparr>n_id = str ''n1'', n_doc = toy_doc,
       n_title = Some (JString (str ''[Decryption Error]'')),
       n_content = Some (JString (str ''[Unable to decrypt note content]''))\<rparr> \<in> set notes)"
proof -
  let ?db = "[(str ''n1'', toy_doc)]"
  have e: "d_encryptedData toy_doc = Some [1, 2, 3]" by (simp add: toy_doc_def)
  have f: "decryptData toy_platform [1, 2, 3] [1, 2] None = Inl decryption_failed"
    by (rule decryptData_no_iv)
  have g: "fs_getDoc toy_firestore ?db (str ''n1'') = Inr (Some toy_doc)"
    by (simp add: toy_firestore_def)
  have q: "fs_getDocs toy_firestore ?db (notes_query_of (str ''u1'') default_options) = Inr ?db"
    by (simp add: toy_firestore_def notes_query_of_def default_options_def toy_doc_def str_def)
  have m: "(str ''n1'', toy_doc) \<in> set ?db" by simp
  have t: "opt_tags default_options = [] \<or>
           hasTag (opt_tags default_options) (decrypted toy_platform [1, 2] (str ''n1'', toy_doc))"
    by (simp add: default_options_def)
  from getNote_aborts_where_getNotes_flags [OF e f, of toy_firestore ?db "str ''n1''"
      "str ''u1''" default_options ?db] g q m t
  show ?thesis by blast
qed

text \<open>
  C10. Atomicity of note creation: when \<^verbatim>\<open>encryptData\<close> fails on the title and content,
  \<^verbatim>\<open>createNote\<close> throws \<^verbatim>\<open>Failed to create note\<close>, an error that carries nothing of the
  note, and leaves the store as it was; so the store changes only if the encryption
  succeeded. (The call passes no IV, so the encryption does fail.)
\<close>

theorem createNote_atomic:
  "(\<forall>e. encryptData W (JObject [(str ''title'', in_title noteData),
                                  (str ''content'', in_content noteData)]) key None = Inl e \<longrightarrow>
        createNote W F db userId key noteData = (Inl (Error (str ''Failed to create note'')), db)) \<and>
   (snd (createNote W F db userId key noteData) = db \<or>
    (\<exists>c. encryptData W (JObject [(str ''title'', in_title noteData),
                                  (str ''content'', in_content noteData)]) key None = Inr c))"
  by (simp add: createNote_def encryptData_no_iv)

text \<open>Creating the note \<^verbatim>\<open>{title: "A", content: "B"}\<close> in an empty store.\<close>

theorem createNote_atomic_witness:
  "encryptData toy_platform
     (JObject [(str ''title'', in_title toy_input), (str ''content'', in_content toy_input)])
     [1, 2] None = Inl missing_iv \<and>
   createNote toy_platform toy_firestore [] (str ''u1'') [1, 2] toy_input =
     (Inl (Error (str ''Failed to create note'')), [])"
  using createNote_atomic [of toy_platform toy_input "[1, 2]" toy_firestore "[]" "str ''u1''"]
    encryptData_no_iv [of toy_platform
      "JObject [(str ''title'', in_title toy_input), (str ''content'', in_content toy_input)]" "[1, 2]"]
  by blast

end
